theory Spec2Isabelle
  imports Complex_Main "HOL-Library.AList"
begin

section \<open>JavaScript values\<close>

text \<open>
  The frontend receives the chart specification as parsed JSON and hands Highcharts a
  plain options object, so both sides are trees of JavaScript values. A JSON document
  never holds \<open>undefined\<close>; the converter's output does. Numbers are modelled as reals:
  the code under study only passes them through. A nested object is an association list
  of its own properties (a parsed JSON object has no duplicate key).
\<close>

datatype jsval =
    JUndefined
  | JNull
  | JBool bool
  | JNum real
  | JStr string
  | JArr "jsval list"
  | JObj "(string \<times> jsval) list"

text \<open>JavaScript truthiness, as used by \<open>c ? a : b\<close>, \<open>a && b\<close> and \<open>a || b\<close>.\<close>

fun truthy :: "jsval \<Rightarrow> bool" where
  "truthy JUndefined = False"
| "truthy JNull = False"
| "truthy (JBool b) = b"
| "truthy (JNum n) = (n \<noteq> 0)"
| "truthy (JStr s) = (s \<noteq> [])"
| "truthy (JArr xs) = True"
| "truthy (JObj kvs) = True"

text \<open>Reading a property of an options object held as a map: a missing key reads as
  \<open>undefined\<close>.\<close>

definition js_get :: "(string \<rightharpoonup> jsval) \<Rightarrow> string \<Rightarrow> jsval" where
  "js_get m k = (case m k of None \<Rightarrow> JUndefined | Some v \<Rightarrow> v)"

text \<open>The property name of an array index: its decimal digits.\<close>

definition digit_char :: "nat \<Rightarrow> char" where
  "digit_char d = ''0123456789'' ! d"

function index_key :: "nat \<Rightarrow> string" where
  "index_key n = (if n < 10 then [digit_char n] else index_key (n div 10) @ [digit_char (n mod 10)])"
  by pat_completeness auto
termination
proof (relation "measure (\<lambda>n. n)")
  show "wf (measure (\<lambda>n::nat. n))" by simp
next
  fix n :: nat
  assume "\<not> n < 10"
  then have "n div 10 < n" by simp
  then show "(n div 10, n) \<in> measure (\<lambda>n. n)" by simp
qed

declare index_key.simps [simp del]

text \<open>
  Reading an own property \<open>v.k\<close> of an object or an array; a missing property reads as
  \<open>undefined\<close>. The code reads properties of objects only, so the value given here for a
  primitive is never used.
\<close>

fun js_prop :: "jsval \<Rightarrow> string \<Rightarrow> jsval" where
  "js_prop (JObj kvs) k = (case map_of kvs k of None \<Rightarrow> JUndefined | Some v \<Rightarrow> v)"
| "js_prop (JArr xs) k =
     (if k = ''length'' then JNum (real (length xs))
      else (case filter (\<lambda>i. index_key i = k) [0..<length xs] of
              [] \<Rightarrow> JUndefined
            | i # rest \<Rightarrow> xs ! i))"
| "js_prop v k = JUndefined"

section \<open>The chart specification (types/chartSpec.ts)\<close>

datatype ChartType = LINE | BAR | COLUMN | PIE | AREA | SCATTER | HEATMAP

text \<open>The string value of each member of the \<open>ChartType\<close> enum.\<close>

fun ChartType_value :: "ChartType \<Rightarrow> string" where
  "ChartType_value LINE = ''line''"
| "ChartType_value BAR = ''bar''"
| "ChartType_value COLUMN = ''column''"
| "ChartType_value PIE = ''pie''"
| "ChartType_value AREA = ''area''"
| "ChartType_value SCATTER = ''scatter''"
| "ChartType_value HEATMAP = ''heatmap''"

text \<open>
  An optional field \<open>f?: T | null\<close> is an \<open>option\<close>: \<open>None\<close> stands for both
  \<open>null\<close> and an absent key. Field names are the source's; \<open>min\<close> and \<open>max\<close> carry a
  suffix because HOL has constants of these names. Fields that several interfaces share
  (\<open>title\<close>, \<open>type\<close>, \<open>name\<close>, \<open>y_axis\<close>) are written qualified.
\<close>

record AxisSpec =
  title :: string
  field :: "string option"
  type :: string
  unit :: "string option"
  format :: "string option"
  min_val :: "real option"
  max_val :: "real option"

record SeriesSpec =
  name :: string
  data :: "jsval list"
  type :: "string option"
  color :: "string option"
  y_axis :: real

record ChartSpec =
  chart_type :: ChartType
  title :: string
  subtitle :: "string option"
  series :: "SeriesSpec list"
  x_axis :: AxisSpec
  y_axis :: "AxisSpec option"
  rationale :: string
  alternative_types :: "ChartType list"
  description :: "string option"
  config :: "string \<rightharpoonup> jsval"

record UserHints =
  preferred_chart_type :: "ChartType option"
  x_field :: "string option"
  y_field :: "string option"
  units :: "(string \<rightharpoonup> string) option"
  formatting :: "(string \<rightharpoonup> string) option"

record ChartRequest =
  data :: jsval
  hints :: "UserHints option"

section \<open>chartSpecToHighcharts (utils/chartConverter.ts)\<close>

text \<open>\<open>v ?? undefined\<close> on an optional number.\<close>

definition nullish_num :: "real option \<Rightarrow> jsval" where
  "nullish_num v = (case v of None \<Rightarrow> JUndefined | Some n \<Rightarrow> JNum n)"

definition baseConfig :: "ChartSpec \<Rightarrow> (string \<rightharpoonup> jsval)" where
  "baseConfig spec =
     [''title'' \<mapsto> JObj [(''text'', JStr (ChartSpec.title spec))],
      ''subtitle'' \<mapsto>
        (case subtitle spec of
           None \<Rightarrow> JUndefined
         | Some t \<Rightarrow> if t \<noteq> [] then JObj [(''text'', JStr t)] else JUndefined),
      ''credits'' \<mapsto> JObj [(''enabled'', JBool False)],
      ''accessibility'' \<mapsto>
        JObj [(''description'',
               JStr (case description spec of
                       None \<Rightarrow> ChartSpec.title spec
                     | Some d \<Rightarrow> if d \<noteq> [] then d else ChartSpec.title spec))]]"

text \<open>The object \<open>seriesConfig\<close> built for one series, as its list of properties.\<close>

definition seriesConfig :: "ChartType \<Rightarrow> SeriesSpec \<Rightarrow> (string \<times> jsval) list" where
  "seriesConfig chartType s =
     [(''name'', JStr (SeriesSpec.name s)),
      (''data'', JArr (SeriesSpec.data s)),
      (''type'', JStr (ChartType_value chartType)),
      (''color'', (case color s of
                     None \<Rightarrow> JUndefined
                   | Some c \<Rightarrow> if c \<noteq> [] then JStr c else JUndefined)),
      (''yAxis'', JNum (SeriesSpec.y_axis s))]"

text \<open>The callback of \<open>spec.series.map\<close>: for a pie chart the spread
  \<open>{...seriesConfig, type: "pie", data: s.data}\<close> overwrites two properties in place.\<close>

definition series_entry :: "ChartType \<Rightarrow> SeriesSpec \<Rightarrow> jsval" where
  "series_entry chartType s =
     (if chartType = PIE
      then JObj (AList.update ''data'' (JArr (SeriesSpec.data s))
                  (AList.update ''type'' (JStr ''pie'') (seriesConfig chartType s)))
      else JObj (seriesConfig chartType s))"

text \<open>The conditional expressions that choose the Highcharts axis type.\<close>

definition xAxisType :: "string \<Rightarrow> string" where
  "xAxisType t =
     (if t = ''datetime'' then ''datetime''
      else if t = ''log'' then ''logarithmic''
      else if t = ''category'' then ''category''
      else ''linear'')"

definition yAxisType :: "string \<Rightarrow> string" where
  "yAxisType t =
     (if t = ''log'' then ''logarithmic''
      else if t = ''category'' then ''category''
      else ''linear'')"

text \<open>The y-axis title: \<open>title + (unit ? ` (${unit})` : "")\<close>.\<close>

definition yAxisTitle :: "AxisSpec \<Rightarrow> string" where
  "yAxisTitle ax =
     AxisSpec.title ax @
       (case unit ax of
          None \<Rightarrow> []
        | Some u \<Rightarrow> if u \<noteq> [] then '' ('' @ u @ '')'' else [])"

text \<open>
  The local variables \<open>xAxis\<close> and \<open>yAxis\<close> after the two \<open>if\<close> statements. \<open>x_axis\<close> is
  a required object of the interface, hence truthy; \<open>y_axis\<close> may be null.
\<close>

definition xAxis_var :: "ChartSpec \<Rightarrow> jsval" where
  "xAxis_var spec =
     (if chart_type spec \<noteq> PIE
      then JObj [(''title'', JObj [(''text'', JStr (AxisSpec.title (x_axis spec)))]),
                 (''type'', JStr (xAxisType (AxisSpec.type (x_axis spec)))),
                 (''min'', nullish_num (min_val (x_axis spec))),
                 (''max'', nullish_num (max_val (x_axis spec)))]
      else JUndefined)"

definition yAxis_var :: "ChartSpec \<Rightarrow> jsval" where
  "yAxis_var spec =
     (case ChartSpec.y_axis spec of
        None \<Rightarrow> JUndefined
      | Some ay \<Rightarrow>
          if chart_type spec \<noteq> PIE
          then JObj [(''title'', JObj [(''text'', JStr (yAxisTitle ay))]),
                     (''type'', JStr (yAxisType (AxisSpec.type ay))),
                     (''min'', nullish_num (min_val ay)),
                     (''max'', nullish_num (max_val ay))]
          else JUndefined)"

text \<open>
  The returned options object, as a map from property name to value. The object literal
  spreads \<open>baseConfig\<close> first and \<open>spec.config\<close> last; a later property of the same
  name replaces an earlier one, which is what \<open>++\<close> on maps does.
\<close>

definition chartSpecToHighcharts :: "ChartSpec \<Rightarrow> (string \<rightharpoonup> jsval)" where
  "chartSpecToHighcharts spec =
     (let chartType = chart_type spec;
          series = map (series_entry chartType) (ChartSpec.series spec);
          xAxis = xAxis_var spec;
          yAxis = yAxis_var spec
      in baseConfig spec
         ++ [''chart'' \<mapsto>
               JObj [(''type'', JStr (if chartType = PIE then ''pie'' else ChartType_value chartType))],
             ''series'' \<mapsto> JArr series,
             ''xAxis'' \<mapsto> (if truthy xAxis then JArr [xAxis] else JUndefined),
             ''yAxis'' \<mapsto> (if truthy yAxis then JArr [yAxis] else JUndefined)]
         ++ config spec)"

section \<open>The tabular fallback of ChartDisplay (components/ChartDisplay.tsx)\<close>

text \<open>
  The operations of JavaScript that can throw are modelled with a result in a sum type,
  so that a throw is a value: \<open>k in v\<close> throws a TypeError when \<open>v\<close> is not an object,
  reading a property of \<open>undefined\<close> or \<open>null\<close> throws one, and so do the conversions
  \<open>String(v)\<close> and \<open>Number(v)\<close> when \<open>v\<close> cannot be converted to a primitive value.
  For \<open>in\<close> only own properties are modelled (for an array: its indices and \<open>length\<close>);
  the properties inherited from the prototypes are left out, none of them being called
  \<open>name\<close> or \<open>y\<close>, the two keys the component tests.
\<close>

datatype js_error = TypeError

fun js_in :: "string \<Rightarrow> jsval \<Rightarrow> js_error + bool" where
  "js_in k (JObj kvs) = Inr (k \<in> set (map fst kvs))"
| "js_in k (JArr xs) = Inr (k = ''length'' \<or> k \<in> set (map index_key [0..<length xs]))"
| "js_in k v = Inl TypeError"

text \<open>\<open>typeof v === "object"\<close> holds of objects, arrays and \<open>null\<close>.\<close>

fun typeof_object :: "jsval \<Rightarrow> bool" where
  "typeof_object JNull = True"
| "typeof_object (JArr xs) = True"
| "typeof_object (JObj kvs) = True"
| "typeof_object v = False"

text \<open>\<open>xs[i]\<close>: reading past the end of an array gives \<open>undefined\<close>.\<close>

definition array_at :: "jsval list \<Rightarrow> nat \<Rightarrow> jsval" where
  "array_at xs i = (if i < length xs then xs ! i else JUndefined)"

text \<open>\<open>point[i]\<close> on a value: an element of an array, \<open>undefined\<close> otherwise.\<close>

definition js_index :: "jsval \<Rightarrow> nat \<Rightarrow> jsval" where
  "js_index v i = (case v of JArr xs \<Rightarrow> array_at xs i | _ \<Rightarrow> JUndefined)"

text \<open>\<open>Array.prototype.map\<close> with a callback that may throw: the first throw ends it.\<close>

fun map_throwing :: "('a \<Rightarrow> 'e + 'b) \<Rightarrow> 'a list \<Rightarrow> 'e + 'b list" where
  "map_throwing f [] = Inr []"
| "map_throwing f (x # xs) =
     (case f x of
        Inl e \<Rightarrow> Inl e
      | Inr y \<Rightarrow> (case map_throwing f xs of Inl e \<Rightarrow> Inl e | Inr ys \<Rightarrow> Inr (y # ys)))"

text \<open>
  \<open>String(v)\<close> and \<open>Number(v)\<close> convert an object to a primitive value by calling its
  \<open>toString\<close> and \<open>valueOf\<close>, in the one or the other order. In a value that comes from
  JSON no property is callable, and the inherited \<open>valueOf\<close> returns the object itself;
  so the conversion of an object gets its primitive from the inherited \<open>toString\<close>, and
  throws a TypeError exactly when an own property \<open>toString\<close> hides it. An array is
  joined, each element other than \<open>null\<close> being converted in turn. A primitive value
  always converts.
\<close>

fun conversion_throws :: "jsval \<Rightarrow> bool" where
  "conversion_throws (JObj kvs) = (''toString'' \<in> set (map fst kvs))"
| "conversion_throws (JArr xs) = list_ex conversion_throws xs"
| "conversion_throws v = False"

text \<open>The two conversions. The parameter gives the result where the conversion
  returns: the text of a value, and its number, which may be NaN, so that the type of
  numbers is left open.\<close>

definition js_String :: "(jsval \<Rightarrow> string) \<Rightarrow> jsval \<Rightarrow> js_error + string" where
  "js_String to_string v = (if conversion_throws v then Inl TypeError else Inr (to_string v))"

definition js_Number :: "(jsval \<Rightarrow> 'n) \<Rightarrow> jsval \<Rightarrow> js_error + 'n" where
  "js_Number to_number v = (if conversion_throws v then Inl TypeError else Inr (to_number v))"

record 'n pie_row =
  name :: string
  "value" :: 'n

text \<open>
  A row of the table of a chart that is no pie chart is an object that starts as \<open>{}\<close>:
  its own properties, and its prototype, which the assignment of \<open>__proto__\<close> can
  replace by a value or by \<open>null\<close>.
\<close>

datatype prototype = ObjectPrototype | NullPrototype | ValuePrototype jsval

record js_row =
  own :: "string \<rightharpoonup> jsval"
  proto :: prototype

definition empty_row :: js_row where
  "empty_row = \<lparr>own = Map.empty, proto = ObjectPrototype\<rparr>"

text \<open>
  Whether an assignment to \<open>__proto__\<close> finds the setter of \<open>Object.prototype\<close> along
  the prototype chain: not below a \<open>null\<close> prototype, and not when the prototype is an
  object that has \<open>__proto__\<close> as an own property (which \<open>JSON.parse\<close> can create).
\<close>

definition reaches_proto_setter :: "prototype \<Rightarrow> bool" where
  "reaches_proto_setter p =
     (case p of
        ObjectPrototype \<Rightarrow> True
      | NullPrototype \<Rightarrow> False
      | ValuePrototype v \<Rightarrow>
          (case v of JObj kvs \<Rightarrow> ''__proto__'' \<notin> set (map fst kvs) | _ \<Rightarrow> True))"

text \<open>
  \<open>row[k] = v\<close>. Every key but \<open>__proto__\<close> becomes, or stays, an own property. For
  \<open>__proto__\<close>, unless the row has it as an own property already, the setter is called
  when the chain reaches it: an object, an array or \<open>null\<close> then becomes the prototype
  of the row, any other value is ignored, and no own property is written.
\<close>

definition row_assign :: "js_row \<Rightarrow> string \<Rightarrow> jsval \<Rightarrow> js_row" where
  "row_assign r k v =
     (if k = ''__proto__'' \<and> own r k = None \<and> reaches_proto_setter (proto r)
      then (case v of
              JObj kvs \<Rightarrow> r\<lparr>proto := ValuePrototype v\<rparr>
            | JArr xs \<Rightarrow> r\<lparr>proto := ValuePrototype v\<rparr>
            | JNull \<Rightarrow> r\<lparr>proto := NullPrototype\<rparr>
            | _ \<Rightarrow> r)
      else r\<lparr>own := (own r)(k \<mapsto> v)\<rparr>)"

datatype 'n table =
    PieRows "'n pie_row list"
  | Rows "js_row list"

text \<open>
  The callback mapped over the first series of a pie chart; \<open>None\<close> is its \<open>null\<close>.
  \<open>String(item.name)\<close> is evaluated before \<open>Number(item.y)\<close>.
\<close>

definition pie_item :: "(jsval \<Rightarrow> string) \<Rightarrow> (jsval \<Rightarrow> 'n) \<Rightarrow> jsval \<Rightarrow> js_error + 'n pie_row option" where
  "pie_item to_string to_number item =
     (if typeof_object item \<and> item \<noteq> JNull
      then (case js_in ''name'' item of
              Inl e \<Rightarrow> Inl e
            | Inr has_name \<Rightarrow>
                if has_name
                then (case js_in ''y'' item of
                        Inl e \<Rightarrow> Inl e
                      | Inr has_y \<Rightarrow>
                          if has_y
                          then (case js_String to_string (js_prop item ''name'') of
                                  Inl e \<Rightarrow> Inl e
                                | Inr n \<Rightarrow>
                                    (case js_Number to_number (js_prop item ''y'') of
                                       Inl e \<Rightarrow> Inl e
                                     | Inr y \<Rightarrow> Inr (Some \<lparr>pie_row.name = n, value = y\<rparr>)))
                          else Inr None)
                else Inr None)
      else Inr None)"

text \<open>\<open>spec.series[0]?.data.map(...).filter(Boolean) || []\<close>: every row object is truthy,
  so the filter drops exactly the nulls; an absent first series gives \<open>[]\<close>.\<close>

definition pie_table :: "(jsval \<Rightarrow> string) \<Rightarrow> (jsval \<Rightarrow> 'n) \<Rightarrow> ChartSpec \<Rightarrow> js_error + 'n pie_row list" where
  "pie_table to_string to_number spec =
     (case ChartSpec.series spec of
        [] \<Rightarrow> Inr []
      | s # rest \<Rightarrow>
          (case map_throwing (pie_item to_string to_number) (SeriesSpec.data s) of
             Inl e \<Rightarrow> Inl e
           | Inr items \<Rightarrow> Inr (List.map_filter (\<lambda>r. r) items)))"

text \<open>\<open>Math.max(...lengths)\<close>: with no argument the result is \<open>-Infinity\<close>.\<close>

datatype max_result = MinusInfinity | Finite nat

fun Math_max :: "nat list \<Rightarrow> max_result" where
  "Math_max [] = MinusInfinity"
| "Math_max (n # ns) = (case Math_max ns of MinusInfinity \<Rightarrow> Finite n | Finite m \<Rightarrow> Finite (max n m))"

fun less_max :: "nat \<Rightarrow> max_result \<Rightarrow> bool" where
  "less_max i MinusInfinity = False"
| "less_max i (Finite n) = (i < n)"

text \<open>\<open>Array.isArray(v)\<close> and \<open>typeof v === "number"\<close>.\<close>

fun Array_isArray :: "jsval \<Rightarrow> bool" where
  "Array_isArray (JArr xs) = True"
| "Array_isArray v = False"

fun typeof_number :: "jsval \<Rightarrow> bool" where
  "typeof_number (JNum n) = True"
| "typeof_number v = False"

text \<open>\<open>v.length\<close> and \<open>v[i]\<close>: reading a property of \<open>undefined\<close> or \<open>null\<close> throws a
  TypeError; a string has a length and one-character members.\<close>

fun js_length :: "jsval \<Rightarrow> js_error + jsval" where
  "js_length JUndefined = Inl TypeError"
| "js_length JNull = Inl TypeError"
| "js_length (JStr s) = Inr (JNum (real (length s)))"
| "js_length v = Inr (js_prop v ''length'')"

fun js_member :: "jsval \<Rightarrow> nat \<Rightarrow> js_error + jsval" where
  "js_member JUndefined i = Inl TypeError"
| "js_member JNull i = Inl TypeError"
| "js_member (JArr xs) i = Inr (array_at xs i)"
| "js_member (JStr s) i = Inr (if i < length s then JStr [s ! i] else JUndefined)"
| "js_member v i = Inr (js_prop v (index_key i))"

text \<open>\<open>a >= r\<close> for a number \<open>a\<close>. The left operand is the length of an array wherever
  the component compares; the value for an operand that is no number is not used.\<close>

fun js_ge :: "jsval \<Rightarrow> real \<Rightarrow> bool" where
  "js_ge (JNum n) r = (r \<le> n)"
| "js_ge v r = False"

text \<open>\<open>Array.prototype.forEach\<close> with a callback that updates a variable and may throw.\<close>

fun forEach_throwing :: "('a \<Rightarrow> 's \<Rightarrow> 'e + 's) \<Rightarrow> 'a list \<Rightarrow> 's \<Rightarrow> 'e + 's" where
  "forEach_throwing f [] st = Inr st"
| "forEach_throwing f (x # xs) st =
     (case f x st of Inl e \<Rightarrow> Inl e | Inr st' \<Rightarrow> forEach_throwing f xs st')"

text \<open>
  The callback of \<open>spec.series.forEach\<close> for row \<open>i\<close>, acting on the row object. The
  condition \<open>Array.isArray(point) && point.length >= 2\<close> reads the length only of an
  array.
\<close>

definition row_step :: "string \<Rightarrow> nat \<Rightarrow> SeriesSpec \<Rightarrow> js_row \<Rightarrow> js_error + js_row" where
  "row_step x_title i s row =
     (let point = array_at (SeriesSpec.data s) i
      in case (if Array_isArray point
               then (case js_length point of Inl e \<Rightarrow> Inl e | Inr len \<Rightarrow> Inr (js_ge len 2))
               else Inr False) of
           Inl e \<Rightarrow> Inl e
         | Inr True \<Rightarrow>
             (case js_member point 0 of
                Inl e \<Rightarrow> Inl e
              | Inr p0 \<Rightarrow>
                  (case js_member point 1 of
                     Inl e \<Rightarrow> Inl e
                   | Inr p1 \<Rightarrow>
                       Inr (row_assign (row_assign row x_title p0) (SeriesSpec.name s) p1)))
         | Inr False \<Rightarrow>
             if typeof_number point then Inr (row_assign row (SeriesSpec.name s) point)
             else Inr row)"

definition build_row :: "ChartSpec \<Rightarrow> nat \<Rightarrow> js_error + js_row" where
  "build_row spec i =
     forEach_throwing (row_step (AxisSpec.title (x_axis spec)) i) (ChartSpec.series spec) empty_row"

text \<open>The \<open>for\<close> loop over the row index.\<close>

function rows_loop ::
  "ChartSpec \<Rightarrow> max_result \<Rightarrow> nat \<Rightarrow> js_row list \<Rightarrow> js_error + js_row list" where
  "rows_loop spec maxLength i rows =
     (if less_max i maxLength
      then (case build_row spec i of
              Inl e \<Rightarrow> Inl e
            | Inr row \<Rightarrow> rows_loop spec maxLength (i + 1) (rows @ [row]))
      else Inr rows)"
  by pat_completeness auto
termination
  by (relation "measure (\<lambda>(spec, m, i, rows). case m of MinusInfinity \<Rightarrow> 0 | Finite n \<Rightarrow> n - i)")
     (auto split: max_result.splits)

declare rows_loop.simps [simp del]

definition tableData :: "(jsval \<Rightarrow> string) \<Rightarrow> (jsval \<Rightarrow> 'n) \<Rightarrow> ChartSpec \<Rightarrow> js_error + 'n table" where
  "tableData to_string to_number spec =
     (if chart_type spec = PIE
      then (case pie_table to_string to_number spec of
              Inl e \<Rightarrow> Inl e
            | Inr rows \<Rightarrow> Inr (PieRows rows))
      else (case rows_loop spec
                   (Math_max (map (\<lambda>s. length (SeriesSpec.data s)) (ChartSpec.series spec)))
                   0 [] of
              Inl e \<Rightarrow> Inl e
            | Inr rows \<Rightarrow> Inr (Rows rows)))"

section \<open>handleSubmit of JsonInput (components/JsonInput.tsx)\<close>

text \<open>
  \<open>String.prototype.trim\<close> removes white space and line terminators from both ends.
  A \<open>char\<close> stands for a code unit below 256, where these are U+0009 to U+000D, the
  space and the no-break space U+00A0.
\<close>

definition js_whitespace :: "char \<Rightarrow> bool" where
  "js_whitespace c = ((of_char c :: nat) \<in> {9, 10, 11, 12, 13, 32, 160})"

definition trim :: "string \<Rightarrow> string" where
  "trim s = rev (dropWhile js_whitespace (rev (dropWhile js_whitespace s)))"

text \<open>
  The component's state. \<open>preferredChartType\<close> has type \<open>ChartType | ""\<close>: \<open>None\<close> is
  the empty string of the "Auto-detect" option, the only falsy member of that type.
\<close>

record JsonInput_state =
  jsonText :: string
  error :: "string option"
  preferredChartType :: "ChartType option"
  xField :: string
  yField :: string

definition no_hints :: UserHints where
  "no_hints = \<lparr>preferred_chart_type = None, x_field = None, y_field = None,
               units = None, formatting = None\<rparr>"

text \<open>\<open>Object.keys(hints)\<close>: the keys that have been assigned.\<close>

definition Object_keys :: "UserHints \<Rightarrow> string list" where
  "Object_keys h =
     (if preferred_chart_type h \<noteq> None then [''preferred_chart_type''] else []) @
     (if x_field h \<noteq> None then [''x_field''] else []) @
     (if y_field h \<noteq> None then [''y_field''] else []) @
     (if units h \<noteq> None then [''units''] else []) @
     (if formatting h \<noteq> None then [''formatting''] else [])"

text \<open>
  \<open>handleSubmit\<close> returns the new state and the request passed to \<open>onSubmit\<close>, if
  any. \<open>JSON.parse\<close> is a parameter: \<open>Inl\<close> carries the message of the error it throws.
  What \<open>onSubmit\<close> does with the request is the caller's part and is not modelled.
\<close>

definition handleSubmit ::
  "(string \<Rightarrow> string + jsval) \<Rightarrow> JsonInput_state \<Rightarrow> JsonInput_state \<times> ChartRequest option" where
  "handleSubmit JSON_parse st =
     (let st0 = st\<lparr>error := None\<rparr>
      in case JSON_parse (jsonText st) of
           Inl message \<Rightarrow> (st0\<lparr>error := Some (''Invalid JSON: '' @ message)\<rparr>, None)
         | Inr parsed \<Rightarrow>
             (let hints0 = no_hints;
                  hints1 = (if preferredChartType st \<noteq> None
                            then hints0\<lparr>preferred_chart_type := preferredChartType st\<rparr>
                            else hints0);
                  hints2 = (if trim (xField st) \<noteq> []
                            then hints1\<lparr>x_field := Some (trim (xField st))\<rparr>
                            else hints1);
                  hints3 = (if trim (yField st) \<noteq> []
                            then hints2\<lparr>y_field := Some (trim (yField st))\<rparr>
                            else hints2)
              in (st0, Some \<lparr>ChartRequest.data = parsed,
                              hints = (if length (Object_keys hints3) > 0 then Some hints3 else None)\<rparr>)))"

section \<open>The chart description of the specification\<close>

text \<open>
  Modelled from the spec: the output contract of the engine, which is not among the
  sources, as section 3 words it. A chart description has a chart type, a title, an
  optional subtitle, an ordered sequence of series, an x-axis, an optional y-axis, a
  rationale, an ordered sequence of alternative types, an optional description and an
  open map of renderer-specific settings. The members of the chart-type enum, which the
  specification does not list, are those of types/chartSpec.ts.
\<close>

text \<open>Modelled from the spec: the semantic type of an axis, one of
  \<open>linear|datetime|category|log\<close> (3).\<close>

datatype AxisKind = LinearAxis | DatetimeAxis | CategoryAxis | LogAxis

text \<open>Modelled from the spec: an axis has a title, an optional source field name, a
  semantic type, an optional unit, an optional format and optional bounds (3).\<close>

record AxisDescription =
  axis_title :: string
  axis_field :: "string option"
  axis_type :: AxisKind
  axis_unit :: "string option"
  axis_format :: "string option"
  axis_min :: "real option"
  axis_max :: "real option"

text \<open>Modelled from the spec: a series has a name, its formatted data, and optionally
  a colour, a type and a secondary-axis index (3).\<close>

record SeriesDescription =
  series_name :: string
  series_data :: "jsval list"
  series_color :: "string option"
  series_type :: "string option"
  series_axis_index :: "nat option"

text \<open>Modelled from the spec: the chart description (3).\<close>

record ChartDescription =
  d_chart_type :: ChartType
  d_title :: string
  d_subtitle :: "string option"
  d_series :: "SeriesDescription list"
  d_x_axis :: AxisDescription
  d_y_axis :: "AxisDescription option"
  d_rationale :: string
  d_alternative_types :: "ChartType list"
  d_description :: "string option"
  d_config :: "string \<rightharpoonup> jsval"

section \<open>The inference engine, as the specification describes it\<close>

text \<open>
  Modelled from the spec: the inference engine with its entry points \<open>infer\<close> and
  \<open>validate\<close> (backend/app/services/chart_inference.py) is not among the sources; only
  its HTTP callers and the documentation are. The definitions of this section follow
  sections 4.1 to 4.3, 6 and 7 of the specification. What the specification leaves open
  is a parameter, collected in \<open>engine_env\<close>: the two parsers of the type classifier, the
  conversion of a date to epoch milliseconds, the name given to an unnamed series, and
  the "best-effort field guessing" used for unrecognized input. The components that
  only format the extracted series (chart type selector, axis builder, series formatter,
  rationale generator, sections 4.4 to 4.7) never fail and are the parameter \<open>assemble\<close>
  of \<open>infer\<close>.
\<close>

text \<open>Modelled from the spec: the detected pattern (3), one of six.\<close>

datatype DetectedPattern =
  TimeSeries | Categorical | MultiSeries | CategoryValueArrays | Grid | Unrecognized

text \<open>Modelled from the spec: the only condition the engine raises (7); it carries a
  human-readable message.\<close>

datatype engine_error = ValidationError string

text \<open>Modelled from the spec: a normalized series (3), a name and an ordered sequence of
  (x, y) pairs with a numeric y.\<close>

record NormalizedSeries =
  series_label :: string
  points :: "(jsval \<times> real) list"

text \<open>Modelled from the spec: what sections 4.1 to 4.3 use and leave open.\<close>

record engine_env =
  parses_iso8601 :: "string \<Rightarrow> bool"
  parse_number :: "string \<Rightarrow> real option"
  epoch_ms :: "string \<Rightarrow> real"
  default_label :: string
  guess_fields :: "jsval list \<Rightarrow> string \<times> string"

text \<open>Modelled from the spec: the result of \<open>validate\<close> (6), one boolean per recognizable
  pattern.\<close>

record pattern_flags =
  is_grid :: bool
  is_multi_series :: bool
  is_time_series :: bool
  is_category_value_arrays :: bool
  is_categorical :: bool

text \<open>Modelled from the spec: lower case, for the case-insensitive match of 4.1.\<close>

definition to_lower :: "string \<Rightarrow> string" where
  "to_lower s =
     map (\<lambda>c. let n = (of_char c :: nat) in if 65 \<le> n \<and> n \<le> 90 then char_of (n + 32) else c) s"

text \<open>Modelled from the spec: the temporal-name set (4.1), matched case-insensitively.\<close>

definition temporal_names :: "string list" where
  "temporal_names = [''t'', ''time'', ''date'', ''timestamp'', ''x'']"

text \<open>Modelled from the spec: the field names that make a field categorical (4.1, 4.2).\<close>

definition categorical_names :: "string list" where
  "categorical_names = [''label'', ''category'', ''name'']"

text \<open>Modelled from the spec: Numeric is a number, or a string that parses fully as a
  number (4.1).\<close>

definition numeric_value :: "engine_env \<Rightarrow> jsval \<Rightarrow> real option" where
  "numeric_value env v =
     (case v of JNum n \<Rightarrow> Some n | JStr s \<Rightarrow> parse_number env s | _ \<Rightarrow> None)"

text \<open>Modelled from the spec: Temporal is an ISO-8601 string, or any value of a field
  with a temporal name (4.1).\<close>

definition temporal_field :: "engine_env \<Rightarrow> string \<Rightarrow> jsval \<Rightarrow> bool" where
  "temporal_field env f v =
     (to_lower f \<in> set temporal_names \<or> (case v of JStr s \<Rightarrow> parses_iso8601 env s | _ \<Rightarrow> False))"

text \<open>Modelled from the spec: the fields of an object, none for any other value.\<close>

definition object_fields :: "jsval \<Rightarrow> (string \<times> jsval) list" where
  "object_fields v = (case v of JObj kvs \<Rightarrow> kvs | _ \<Rightarrow> [])"

text \<open>Modelled from the spec: an array-valued key of the top-level object.\<close>

definition array_field :: "jsval \<Rightarrow> string \<Rightarrow> jsval list option" where
  "array_field d k = (case map_of (object_fields d) k of Some (JArr xs) \<Rightarrow> Some xs | _ \<Rightarrow> None)"

text \<open>Modelled from the spec: a record with a numeric \<open>value\<close> field (4.2, items 3 and 5).\<close>

definition has_numeric_value :: "engine_env \<Rightarrow> jsval \<Rightarrow> bool" where
  "has_numeric_value env r =
     (case map_of (object_fields r) ''value'' of None \<Rightarrow> False | Some v \<Rightarrow> numeric_value env v \<noteq> None)"

text \<open>Modelled from the spec: Grid (4.2, item 1): array-valued keys \<open>rows\<close>, \<open>columns\<close> and
  \<open>values\<close>, the last a sequence of sequences of numbers.\<close>

definition grid_pattern :: "jsval \<Rightarrow> bool" where
  "grid_pattern d =
     (case (array_field d ''rows'', array_field d ''columns'', array_field d ''values'') of
        (Some rs, Some cs, Some vs) \<Rightarrow>
          list_all (\<lambda>row. case row of
                      JArr cells \<Rightarrow> list_all (\<lambda>c. case c of JNum n \<Rightarrow> True | _ \<Rightarrow> False) cells
                    | _ \<Rightarrow> False) vs
      | _ \<Rightarrow> False)"

text \<open>Modelled from the spec: an array of point-like records (4.2, item 2).\<close>

definition record_array :: "jsval \<Rightarrow> bool" where
  "record_array v =
     (case v of JArr ps \<Rightarrow> list_all (\<lambda>p. case p of JObj kvs \<Rightarrow> True | _ \<Rightarrow> False) ps | _ \<Rightarrow> False)"

text \<open>Modelled from the spec: MultiSeries (4.2, item 2): a \<open>series\<close> array of objects, each
  with a \<open>name\<close> and an array of records.\<close>

definition multi_series_pattern :: "jsval \<Rightarrow> bool" where
  "multi_series_pattern d =
     (case array_field d ''series'' of
        None \<Rightarrow> False
      | Some ss \<Rightarrow>
          list_all (\<lambda>s. case s of
                      JObj kvs \<Rightarrow> map_of kvs ''name'' \<noteq> None \<and> list_ex (\<lambda>(k, v). record_array v) kvs
                    | _ \<Rightarrow> False) ss)"

text \<open>Modelled from the spec: TimeSeries (4.2, item 3): a \<open>points\<close> array with a record that
  has a temporal field and a numeric value.\<close>

definition time_series_pattern :: "engine_env \<Rightarrow> jsval \<Rightarrow> bool" where
  "time_series_pattern env d =
     (case array_field d ''points'' of
        None \<Rightarrow> False
      | Some rs \<Rightarrow>
          list_ex (\<lambda>r. list_ex (\<lambda>(k, v). temporal_field env k v) (object_fields r)
                       \<and> has_numeric_value env r) rs)"

text \<open>Modelled from the spec: CategoryValueArrays (4.2, item 4): a \<open>categories\<close> or
  \<open>labels\<close> array and a \<open>values\<close> array of equal length.\<close>

definition category_value_arrays_pattern :: "jsval \<Rightarrow> bool" where
  "category_value_arrays_pattern d =
     (case array_field d ''values'' of
        None \<Rightarrow> False
      | Some vs \<Rightarrow>
          (case array_field d ''categories'' of
             Some cs \<Rightarrow> length cs = length vs
           | None \<Rightarrow> (case array_field d ''labels'' of
                        Some ls \<Rightarrow> length ls = length vs
                      | None \<Rightarrow> False)))"

text \<open>Modelled from the spec: Categorical (4.2, item 5): an \<open>items\<close> array with a record that
  has a categorical field and a numeric value.\<close>

definition categorical_pattern :: "engine_env \<Rightarrow> jsval \<Rightarrow> bool" where
  "categorical_pattern env d =
     (case array_field d ''items'' of
        None \<Rightarrow> False
      | Some rs \<Rightarrow>
          list_ex (\<lambda>r. list_ex (\<lambda>(k, v). k \<in> set categorical_names) (object_fields r)
                       \<and> has_numeric_value env r) rs)"

text \<open>Modelled from the spec: \<open>validate\<close> runs the pattern detector only and reports one
  flag per pattern (6).\<close>

definition validate :: "engine_env \<Rightarrow> jsval \<Rightarrow> pattern_flags" where
  "validate env d =
     \<lparr>is_grid = grid_pattern d,
      is_multi_series = multi_series_pattern d,
      is_time_series = time_series_pattern env d,
      is_category_value_arrays = category_value_arrays_pattern d,
      is_categorical = categorical_pattern env d\<rparr>"

text \<open>Modelled from the spec: exactly one pattern, the first match in the fixed priority
  order of 4.2.\<close>

definition detect_pattern :: "engine_env \<Rightarrow> jsval \<Rightarrow> DetectedPattern" where
  "detect_pattern env d =
     (if grid_pattern d then Grid
      else if multi_series_pattern d then MultiSeries
      else if time_series_pattern env d then TimeSeries
      else if category_value_arrays_pattern d then CategoryValueArrays
      else if categorical_pattern env d then Categorical
      else Unrecognized)"

text \<open>Modelled from the spec: a hint, absent when no hints are given (4.3).\<close>

definition hinted :: "(UserHints \<Rightarrow> 'a option) \<Rightarrow> UserHints option \<Rightarrow> 'a option" where
  "hinted f h = (case h of None \<Rightarrow> None | Some u \<Rightarrow> f u)"

text \<open>Modelled from the spec: the candidate field names, the hinted one if there is a hint.\<close>

definition field_choice :: "string option \<Rightarrow> string list \<Rightarrow> string list" where
  "field_choice hint conventional = (case hint of Some f \<Rightarrow> [f] | None \<Rightarrow> conventional)"

text \<open>Modelled from the spec: the value of the first candidate field that a record has.\<close>

definition first_present :: "string list \<Rightarrow> (string \<times> jsval) list \<Rightarrow> jsval option" where
  "first_present ks kvs =
     (case filter (\<lambda>k. map_of kvs k \<noteq> None) ks of [] \<Rightarrow> None | k # rest \<Rightarrow> map_of kvs k)"

text \<open>Modelled from the spec: a temporal x-value becomes epoch milliseconds (4.3).\<close>

definition normalise_x :: "engine_env \<Rightarrow> jsval \<Rightarrow> jsval" where
  "normalise_x env v =
     (case v of JStr s \<Rightarrow> if parses_iso8601 env s then JNum (epoch_ms env s) else v | _ \<Rightarrow> v)"

text \<open>Modelled from the spec: one record gives one point; a record that misses an
  expected field, or whose value is not numeric, is skipped (\<open>None\<close>), never an error.\<close>

definition extract_point :: "engine_env \<Rightarrow> string list \<Rightarrow> string list \<Rightarrow> jsval \<Rightarrow> (jsval \<times> real) option" where
  "extract_point env xs ys r =
     (case first_present xs (object_fields r) of
        None \<Rightarrow> None
      | Some xv \<Rightarrow>
          (case first_present ys (object_fields r) of
             None \<Rightarrow> None
           | Some yv \<Rightarrow>
               (case numeric_value env yv of
                  None \<Rightarrow> None
                | Some y \<Rightarrow> Some (normalise_x env xv, y))))"

text \<open>Modelled from the spec: the usable points of a sequence of records, in order.\<close>

definition extract_series :: "engine_env \<Rightarrow> string \<Rightarrow> string list \<Rightarrow> string list \<Rightarrow> jsval list \<Rightarrow> NormalizedSeries" where
  "extract_series env label xs ys rs =
     \<lparr>series_label = label, points = List.map_filter (extract_point env xs ys) rs\<rparr>"

text \<open>Modelled from the spec: the pairs of two parallel arrays whose value is numeric.\<close>

definition numeric_pairs :: "engine_env \<Rightarrow> (jsval \<times> jsval) list \<Rightarrow> (jsval \<times> real) list" where
  "numeric_pairs env ps =
     List.map_filter (\<lambda>(c, v). map_option (\<lambda>y. (c, y)) (numeric_value env v)) ps"

text \<open>Modelled from the spec: the name of a series, when it is a string.\<close>

definition label_of :: "jsval option \<Rightarrow> string" where
  "label_of v = (case v of Some (JStr n) \<Rightarrow> n | _ \<Rightarrow> [])"

text \<open>Modelled from the spec: the elements of an array-valued key, none when it is absent.\<close>

definition array_or_empty :: "jsval list option \<Rightarrow> jsval list" where
  "array_or_empty a = (case a of Some xs \<Rightarrow> xs | None \<Rightarrow> [])"

text \<open>Modelled from the spec: the normalized series of each pattern (4.3). Unrecognized
  input is treated like Categorical input with guessed field names, the records being
  the elements of the arrays found at the top level (4.2, item 6).\<close>

definition extract_data :: "engine_env \<Rightarrow> jsval \<Rightarrow> DetectedPattern \<Rightarrow> UserHints option \<Rightarrow> NormalizedSeries list" where
  "extract_data env d pattern h =
     (let xh = hinted x_field h;
          ys = field_choice (hinted y_field h) [''value'']
      in case pattern of
           TimeSeries \<Rightarrow>
             [extract_series env (default_label env) (field_choice xh temporal_names) ys
                (array_or_empty (array_field d ''points''))]
         | Categorical \<Rightarrow>
             [extract_series env (default_label env) (field_choice xh categorical_names) ys
                (array_or_empty (array_field d ''items''))]
         | MultiSeries \<Rightarrow>
             map (\<lambda>s. extract_series env (label_of (map_of (object_fields s) ''name''))
                        (field_choice xh (temporal_names @ categorical_names)) ys
                        (case filter (\<lambda>(k, v). record_array v) (object_fields s) of
                           (k, JArr ps) # rest \<Rightarrow> ps
                         | _ \<Rightarrow> []))
                 (array_or_empty (array_field d ''series''))
         | CategoryValueArrays \<Rightarrow>
             [\<lparr>series_label = default_label env,
               points = numeric_pairs env
                          (zip (case array_field d ''categories'' of
                                  Some cs \<Rightarrow> cs
                                | None \<Rightarrow> array_or_empty (array_field d ''labels''))
                               (array_or_empty (array_field d ''values'')))\<rparr>]
         | Grid \<Rightarrow>
             map (\<lambda>(r, row). \<lparr>series_label = label_of (Some r),
                               points = numeric_pairs env
                                          (zip (array_or_empty (array_field d ''columns''))
                                               (case row of JArr cells \<Rightarrow> cells | _ \<Rightarrow> []))\<rparr>)
                 (zip (array_or_empty (array_field d ''rows''))
                      (array_or_empty (array_field d ''values'')))
         | Unrecognized \<Rightarrow>
             (let rs = concat (map (\<lambda>(k, v). case v of JArr xs \<Rightarrow> xs | _ \<Rightarrow> [])
                                   (object_fields d));
                  guess = guess_fields env rs
              in [extract_series env (default_label env)
                    (field_choice xh [fst guess]) (field_choice (hinted y_field h) [snd guess])
                    rs]))"

text \<open>Modelled from the spec: \<open>infer\<close> fails with a ValidationError, carrying a
  message, when there is no series or a series has lost all its records (4.3, 6, 7);
  otherwise the description is assembled from the pattern and the series.\<close>

definition infer ::
  "engine_env \<Rightarrow> (DetectedPattern \<Rightarrow> NormalizedSeries list \<Rightarrow> UserHints option \<Rightarrow> ChartDescription)
     \<Rightarrow> jsval \<Rightarrow> UserHints option \<Rightarrow> engine_error + ChartDescription" where
  "infer env assemble d h =
     (let pattern = detect_pattern env d;
          extracted = extract_data env d pattern h
      in if extracted = [] \<or> list_ex (\<lambda>s. points s = []) extracted
         then Inl (ValidationError ''no usable data points'')
         else Inr (assemble pattern extracted h))"

section \<open>Vocabulary of the properties\<close>

text \<open>The shapes of a data point that the component tells apart.\<close>

definition xy_pair :: "jsval \<Rightarrow> bool" where
  "xy_pair p = (case p of JArr xs \<Rightarrow> 2 \<le> length xs | _ \<Rightarrow> False)"

definition bare_number :: "jsval \<Rightarrow> bool" where
  "bare_number p = (case p of JNum n \<Rightarrow> True | _ \<Rightarrow> False)"

definition name_y_record :: "jsval \<Rightarrow> bool" where
  "name_y_record item =
     (case item of JObj kvs \<Rightarrow> ''name'' \<in> set (map fst kvs) \<and> ''y'' \<in> set (map fst kvs) | _ \<Rightarrow> False)"

text \<open>What one data point of a series writes into a row, and the row of index \<open>i\<close>
  that the series of a chart write in order.\<close>

definition cells_of :: "string \<Rightarrow> string \<Rightarrow> jsval \<Rightarrow> js_row \<Rightarrow> js_row" where
  "cells_of x_title s_name p row =
     (if xy_pair p then row_assign (row_assign row x_title (js_index p 0)) s_name (js_index p 1)
      else if bare_number p then row_assign row s_name p
      else row)"

definition table_row :: "ChartSpec \<Rightarrow> nat \<Rightarrow> js_row" where
  "table_row spec i =
     fold (\<lambda>s. cells_of (AxisSpec.title (x_axis spec)) (SeriesSpec.name s) (array_at (SeriesSpec.data s) i))
          (ChartSpec.series spec) empty_row"

text \<open>The keys that one data point writes into its row, when no key is \<open>__proto__\<close>.\<close>

definition cell_keys :: "string \<Rightarrow> string \<Rightarrow> jsval \<Rightarrow> string set" where
  "cell_keys x_title s_name p =
     (if xy_pair p then {x_title, s_name} else if bare_number p then {s_name} else {})"

definition longest_series :: "ChartSpec \<Rightarrow> nat" where
  "longest_series spec = foldr (\<lambda>s n. max (length (SeriesSpec.data s)) n) (ChartSpec.series spec) 0"

text \<open>Whether the keys that a chart assigns in its rows avoid \<open>__proto__\<close>.\<close>

definition plain_keys :: "ChartSpec \<Rightarrow> bool" where
  "plain_keys spec =
     (AxisSpec.title (x_axis spec) \<noteq> ''__proto__'' \<and>
      list_all (\<lambda>s. SeriesSpec.name s \<noteq> ''__proto__'') (ChartSpec.series spec))"

text \<open>Whether a name/y record among the points has a name or a y that cannot be
  converted, and the rows of the pie table, one per name/y record, in order.\<close>

definition pie_throws :: "jsval list \<Rightarrow> bool" where
  "pie_throws items =
     list_ex (\<lambda>item. name_y_record item \<and>
                (conversion_throws (js_prop item ''name'') \<or> conversion_throws (js_prop item ''y'')))
             items"

definition pie_rows_of :: "(jsval \<Rightarrow> string) \<Rightarrow> (jsval \<Rightarrow> 'n) \<Rightarrow> jsval list \<Rightarrow> 'n pie_row list" where
  "pie_rows_of to_string to_number items =
     map (\<lambda>item. \<lparr>pie_row.name = to_string (js_prop item ''name''),
                   value = to_number (js_prop item ''y'')\<rparr>)
         (filter name_y_record items)"

text \<open>A hint key as the request carries it: absent when \<open>hints\<close> is null.\<close>

definition request_hint :: "(UserHints \<Rightarrow> 'a option) \<Rightarrow> ChartRequest \<Rightarrow> 'a option" where
  "request_hint f req = (case hints req of None \<Rightarrow> None | Some h \<Rightarrow> f h)"

section \<open>Concrete inputs\<close>

text \<open>
  Instances of the parameters for the concrete inputs below: they agree with the text
  that JavaScript's \<open>String\<close> returns on strings, with the number that \<open>Number\<close>
  returns on numbers and with \<open>JSON.parse\<close> on the text \<open>{}\<close>, which is all these
  inputs exercise.
\<close>

definition sample_String :: "jsval \<Rightarrow> string" where
  "sample_String v = (case v of JStr s \<Rightarrow> s | _ \<Rightarrow> [])"

definition sample_Number :: "jsval \<Rightarrow> real" where
  "sample_Number v = (case v of JNum n \<Rightarrow> n | _ \<Rightarrow> 0)"

definition sample_parse :: "string \<Rightarrow> string + jsval" where
  "sample_parse s = (if s = ''{}'' then Inr (JObj []) else Inl ''Unexpected token'')"

definition example_axis :: AxisSpec where
  "example_axis = \<lparr>AxisSpec.title = ''Time'', field = Some ''t'', AxisSpec.type = ''datetime'',
     unit = None, format = None, min_val = None, max_val = None\<rparr>"

definition value_axis :: AxisSpec where
  "value_axis = \<lparr>AxisSpec.title = ''Value'', field = Some ''value'', AxisSpec.type = ''datetime'',
     unit = Some ''kg'', format = None, min_val = Some 0, max_val = None\<rparr>"

text \<open>Two series of unequal length, as coordinate pairs.\<close>

definition example_line :: ChartSpec where
  "example_line =
     \<lparr>chart_type = LINE, ChartSpec.title = ''Load'', subtitle = None,
      series = [\<lparr>SeriesSpec.name = ''CPU'', data = [JArr [JNum 1, JNum 50], JArr [JNum 2, JNum 55]],
                 SeriesSpec.type = None, color = None, SeriesSpec.y_axis = 0\<rparr>,
                \<lparr>SeriesSpec.name = ''Memory'', data = [JArr [JNum 1, JNum 60]],
                 SeriesSpec.type = None, color = None, SeriesSpec.y_axis = 0\<rparr>],
      x_axis = example_axis, ChartSpec.y_axis = Some value_axis, rationale = ''r'',
      alternative_types = [AREA, COLUMN], description = None, config = Map.empty\<rparr>"

text \<open>A column chart whose only data point is a bare number.\<close>

definition number_series_chart :: ChartSpec where
  "number_series_chart =
     \<lparr>chart_type = COLUMN, ChartSpec.title = ''Counts'', subtitle = None,
      series = [\<lparr>SeriesSpec.name = ''S'', data = [JNum 5],
                 SeriesSpec.type = None, color = None, SeriesSpec.y_axis = 0\<rparr>],
      x_axis = example_axis, ChartSpec.y_axis = None, rationale = ''r'',
      alternative_types = [], description = None, config = Map.empty\<rparr>"

text \<open>A pie chart with one name/y record and three points of other shapes.\<close>

definition example_pie :: ChartSpec where
  "example_pie =
     \<lparr>chart_type = PIE, ChartSpec.title = ''Share'', subtitle = None,
      series = [\<lparr>SeriesSpec.name = ''Share'',
                 data = [JObj [(''name'', JStr ''A''), (''y'', JNum 45)], JNum 3,
                         JObj [(''name'', JStr ''C'')], JArr [JStr ''B'', JNum 1]],
                 SeriesSpec.type = None, color = None, SeriesSpec.y_axis = 0\<rparr>],
      x_axis = example_axis, ChartSpec.y_axis = None, rationale = ''r'',
      alternative_types = [], description = None, config = Map.empty\<rparr>"

text \<open>A pie chart whose only point is a name/y record with an object as name, and
  that object has an own property \<open>toString\<close>.\<close>

definition unconvertible_pie :: ChartSpec where
  "unconvertible_pie =
     \<lparr>chart_type = PIE, ChartSpec.title = ''Share'', subtitle = None,
      series = [\<lparr>SeriesSpec.name = ''Share'',
                 data = [JObj [(''name'', JObj [(''toString'', JNum 1)]), (''y'', JNum 1)]],
                 SeriesSpec.type = None, color = None, SeriesSpec.y_axis = 0\<rparr>],
      x_axis = example_axis, ChartSpec.y_axis = None, rationale = ''r'',
      alternative_types = [], description = None, config = Map.empty\<rparr>"

text \<open>A line chart with a series named \<open>__proto__\<close>.\<close>

definition proto_named_chart :: ChartSpec where
  "proto_named_chart =
     \<lparr>chart_type = LINE, ChartSpec.title = ''Load'', subtitle = None,
      series = [\<lparr>SeriesSpec.name = ''__proto__'', data = [JArr [JNum 1, JNum 2]],
                 SeriesSpec.type = None, color = None, SeriesSpec.y_axis = 0\<rparr>],
      x_axis = example_axis, ChartSpec.y_axis = None, rationale = ''r'',
      alternative_types = [], description = None, config = Map.empty\<rparr>"

definition pie_with_axis_config :: ChartSpec where
  "pie_with_axis_config =
     example_pie\<lparr>config := [''xAxis'' \<mapsto> JObj [(''visible'', JBool True)]]\<rparr>"

definition empty_unit_chart :: ChartSpec where
  "empty_unit_chart = example_line\<lparr>ChartSpec.y_axis := Some (value_axis\<lparr>unit := Some []\<rparr>)\<rparr>"

definition retitled_chart :: ChartSpec where
  "retitled_chart =
     example_line\<lparr>config := [''title'' \<mapsto> JObj [(''text'', JStr ''Custom'')], ''series'' \<mapsto> JArr []]\<rparr>"

definition typed_state :: JsonInput_state where
  "typed_state = \<lparr>jsonText = ''{}'', error = Some ''old'', preferredChartType = None,
                   xField = ''  t '', yField = ''   ''\<rparr>"

definition blank_state :: JsonInput_state where
  "blank_state = \<lparr>jsonText = ''{}'', error = None, preferredChartType = None,
                   xField = [], yField = '' ''\<rparr>"

text \<open>An instance of the engine's parameters, and the time-series scenario of the
  specification.\<close>

definition sample_env :: engine_env where
  "sample_env =
     \<lparr>parses_iso8601 = (\<lambda>s. s = ''2025-12-01'' \<or> s = ''2025-12-02''),
      parse_number = (\<lambda>s. None),
      epoch_ms = (\<lambda>s. if s = ''2025-12-01'' then 1764547200000 else 1764633600000),
      default_label = ''Series 1'',
      guess_fields = (\<lambda>rs. (''label'', ''value''))\<rparr>"

definition sample_description :: ChartDescription where
  "sample_description =
     \<lparr>d_chart_type = LINE, d_title = ''Time Series Data'', d_subtitle = None,
      d_series = [\<lparr>series_name = ''Series 1'',
                   series_data = [JArr [JNum 1764547200000, JNum 10],
                                  JArr [JNum 1764633600000, JNum 15]],
                   series_color = None, series_type = None, series_axis_index = None\<rparr>],
      d_x_axis = \<lparr>axis_title = ''Time'', axis_field = Some ''t'', axis_type = DatetimeAxis,
                   axis_unit = None, axis_format = None, axis_min = None, axis_max = None\<rparr>,
      d_y_axis = Some \<lparr>axis_title = ''Value'', axis_field = Some ''value'',
                        axis_type = LinearAxis, axis_unit = None, axis_format = None,
                        axis_min = None, axis_max = None\<rparr>,
      d_rationale = ''Line chart selected because data appears to be a time series with 1 series.'',
      d_alternative_types = [AREA, COLUMN], d_description = None, d_config = Map.empty\<rparr>"

definition sample_assemble :: "DetectedPattern \<Rightarrow> NormalizedSeries list \<Rightarrow> UserHints option \<Rightarrow> ChartDescription" where
  "sample_assemble pattern extracted h = sample_description"

definition points_input :: jsval where
  "points_input =
     JObj [(''points'', JArr [JObj [(''t'', JStr ''2025-12-01''), (''value'', JNum 10)],
                              JObj [(''t'', JStr ''2025-12-02''), (''value'', JNum 15)]])]"

section \<open>Auxiliary facts\<close>

subsection \<open>One row\<close>

lemma row_step_ok:
  "row_step xt i s row = Inr (cells_of xt (SeriesSpec.name s) (array_at (SeriesSpec.data s) i) row)"
  by (cases "array_at (SeriesSpec.data s) i")
     (auto simp: row_step_def cells_of_def xy_pair_def bare_number_def js_index_def Let_def)

lemma forEach_throwing_pure:
  "(\<And>x st. f x st = Inr (g x st)) \<Longrightarrow> forEach_throwing f xs st = Inr (fold g xs st)"
  by (induction xs arbitrary: st) simp_all

lemma build_row_ok: "build_row spec i = Inr (table_row spec i)"
  unfolding build_row_def table_row_def
  by (rule forEach_throwing_pure) (rule row_step_ok)

lemma row_assign_plain:
  "k \<noteq> ''__proto__'' \<Longrightarrow> row_assign r k v = r\<lparr>own := (own r)(k \<mapsto> v)\<rparr>"
  by (simp add: row_assign_def)

lemma cells_of_plain:
  assumes "xt \<noteq> ''__proto__''" and "n \<noteq> ''__proto__''"
  shows "proto (cells_of xt n p row) = proto row"
    and "dom (own (cells_of xt n p row)) = dom (own row) \<union> cell_keys xt n p"
  using assms by (auto simp: cells_of_def cell_keys_def row_assign_plain)

lemma fold_cells_of_plain:
  assumes "xt \<noteq> ''__proto__''" and "\<forall>s\<in>set ss. SeriesSpec.name s \<noteq> ''__proto__''"
  shows "proto (fold (\<lambda>s. cells_of xt (SeriesSpec.name s) (array_at (SeriesSpec.data s) i)) ss row)
           = proto row \<and>
         dom (own (fold (\<lambda>s. cells_of xt (SeriesSpec.name s) (array_at (SeriesSpec.data s) i)) ss row))
           = dom (own row) \<union>
             (\<Union>s\<in>set ss. cell_keys xt (SeriesSpec.name s) (array_at (SeriesSpec.data s) i))"
  using assms
proof (induction ss arbitrary: row)
  case Nil
  then show ?case by simp
next
  case (Cons s ss)
  have n: "SeriesSpec.name s \<noteq> ''__proto__''" and rest: "\<forall>t\<in>set ss. SeriesSpec.name t \<noteq> ''__proto__''"
    using Cons.prems(2) by simp_all
  show ?case
    using Cons.IH[OF Cons.prems(1) rest] cells_of_plain[OF Cons.prems(1) n]
    by (simp add: Un_assoc)
qed

lemma table_row_plain:
  assumes "plain_keys spec"
  shows "proto (table_row spec i) = ObjectPrototype"
    and "dom (own (table_row spec i))
           = (\<Union>s\<in>set (ChartSpec.series spec).
                cell_keys (AxisSpec.title (x_axis spec)) (SeriesSpec.name s)
                  (array_at (SeriesSpec.data s) i))"
proof -
  have a: "AxisSpec.title (x_axis spec) \<noteq> ''__proto__''"
    and b: "\<forall>s\<in>set (ChartSpec.series spec). SeriesSpec.name s \<noteq> ''__proto__''"
    using assms by (simp_all add: plain_keys_def list_all_iff)
  show "proto (table_row spec i) = ObjectPrototype"
    using fold_cells_of_plain[OF a b, of i empty_row] by (simp add: table_row_def empty_row_def)
  show "dom (own (table_row spec i))
           = (\<Union>s\<in>set (ChartSpec.series spec).
                cell_keys (AxisSpec.title (x_axis spec)) (SeriesSpec.name s)
                  (array_at (SeriesSpec.data s) i))"
    using fold_cells_of_plain[OF a b, of i empty_row] by (simp add: table_row_def empty_row_def)
qed

subsection \<open>The row loop\<close>

lemma rows_loop_eq:
  "rows_loop spec (Finite n) i rows = Inr (rows @ map (table_row spec) [i..<n])"
proof (induction "n - i" arbitrary: i rows)
  case 0
  then show ?case by (simp add: rows_loop.simps)
next
  case (Suc d)
  then have lt: "i < n" and d: "d = n - (i + 1)" by simp_all
  have "rows_loop spec (Finite n) i rows = rows_loop spec (Finite n) (i + 1) (rows @ [table_row spec i])"
    using lt by (subst rows_loop.simps) (simp add: build_row_ok)
  also have "\<dots> = Inr ((rows @ [table_row spec i]) @ map (table_row spec) [i + 1..<n])"
    using Suc.hyps(1)[OF d] .
  also have "\<dots> = Inr (rows @ map (table_row spec) [i..<n])"
    using lt by (simp add: upt_conv_Cons)
  finally show ?case .
qed

lemma rows_loop_minus_infinity: "rows_loop spec MinusInfinity i rows = Inr rows"
  by (subst rows_loop.simps) simp

lemma Math_max_foldr:
  "Math_max (map f xs) = (if xs = [] then MinusInfinity else Finite (foldr (\<lambda>s n. max (f s) n) xs 0))"
  by (induction xs) (auto split: max_result.splits)

lemma rows_loop_all:
  "rows_loop spec (Math_max (map (\<lambda>s. length (SeriesSpec.data s)) (ChartSpec.series spec))) 0 []
     = Inr (map (table_row spec) [0..<longest_series spec])"
  by (simp add: Math_max_foldr rows_loop_eq rows_loop_minus_infinity longest_series_def)

lemma tableData_rows:
  "chart_type spec \<noteq> PIE \<Longrightarrow>
   tableData to_string to_number spec = Inr (Rows (map (table_row spec) [0..<longest_series spec]))"
  by (simp add: tableData_def rows_loop_all)

subsection \<open>The pie table\<close>

text \<open>An index key is made of digits, so it is neither \<open>name\<close> nor \<open>y\<close>: the \<open>in\<close>
  tests are false on every array.\<close>

lemma index_key_digits: "set (index_key n) \<subseteq> set ''0123456789''"
proof (induction n rule: index_key.induct)
  case (1 n)
  have d: "digit_char k \<in> set ''0123456789''" if "k < 10" for k
    using that unfolding digit_char_def by (intro nth_mem) simp
  show ?case
  proof (cases "n < 10")
    case True
    then show ?thesis using d[of n] by (subst index_key.simps) simp
  next
    case False
    then have "set (index_key (n div 10)) \<subseteq> set ''0123456789''" using 1 by simp
    moreover have "digit_char (n mod 10) \<in> set ''0123456789''" by (rule d) simp
    ultimately show ?thesis using False by (subst index_key.simps) simp
  qed
qed

lemma index_key_not_name: "index_key n \<noteq> ''name''" "index_key n \<noteq> ''y''"
  using index_key_digits[of n] by auto

lemma pie_item_eq:
  "pie_item to_string to_number item =
     (if name_y_record item
      then (if conversion_throws (js_prop item ''name'') \<or> conversion_throws (js_prop item ''y'')
            then Inl TypeError
            else Inr (Some \<lparr>pie_row.name = to_string (js_prop item ''name''),
                             value = to_number (js_prop item ''y'')\<rparr>))
      else Inr None)"
proof (cases item)
  case (JArr xs)
  have "''name'' \<notin> set (map index_key [0..<length xs])"
    using index_key_not_name(1) by (auto simp del: upt.simps) metis
  then show ?thesis using JArr by (simp add: pie_item_def name_y_record_def)
next
  case (JObj kvs)
  then show ?thesis
    by (simp add: pie_item_def name_y_record_def js_String_def js_Number_def del: js_prop.simps)
qed (auto simp: pie_item_def name_y_record_def)

lemma pie_map_eq:
  "map_throwing (pie_item to_string to_number) items =
     (if pie_throws items then Inl TypeError
      else Inr (map (\<lambda>item. if name_y_record item
                             then Some \<lparr>pie_row.name = to_string (js_prop item ''name''),
                                        value = to_number (js_prop item ''y'')\<rparr>
                             else None) items))"
  by (induction items) (simp_all add: pie_throws_def pie_item_eq del: js_prop.simps)

lemma map_filter_if:
  "List.map_filter (\<lambda>r. r) (map (\<lambda>x. if P x then Some (h x) else None) xs) = map h (filter P xs)"
  by (induction xs) (simp_all add: List.map_filter_simps)

lemma pie_table_eq:
  "pie_table to_string to_number spec =
     (case ChartSpec.series spec of
        [] \<Rightarrow> Inr []
      | s # rest \<Rightarrow>
          if pie_throws (SeriesSpec.data s) then Inl TypeError
          else Inr (pie_rows_of to_string to_number (SeriesSpec.data s)))"
  by (simp add: pie_table_def pie_map_eq map_filter_if pie_rows_of_def split: list.splits)

lemma tableData_pie:
  "chart_type spec = PIE \<Longrightarrow>
   tableData to_string to_number spec =
     (case ChartSpec.series spec of
        [] \<Rightarrow> Inr (PieRows [])
      | s # rest \<Rightarrow>
          if pie_throws (SeriesSpec.data s) then Inl TypeError
          else Inr (PieRows (pie_rows_of to_string to_number (SeriesSpec.data s))))"
  by (simp add: tableData_def pie_table_eq split: list.splits)

subsection \<open>The axis entries of the options\<close>

lemma options_xAxis:
  "config spec ''xAxis'' = None \<Longrightarrow>
   js_get (chartSpecToHighcharts spec) ''xAxis'' =
     (if truthy (xAxis_var spec) then JArr [xAxis_var spec] else JUndefined)"
  by (simp add: chartSpecToHighcharts_def js_get_def Let_def map_add_def)

lemma options_yAxis:
  "config spec ''yAxis'' = None \<Longrightarrow>
   js_get (chartSpecToHighcharts spec) ''yAxis'' =
     (if truthy (yAxis_var spec) then JArr [yAxis_var spec] else JUndefined)"
  by (simp add: chartSpecToHighcharts_def js_get_def Let_def map_add_def)

lemma options_series:
  "config spec ''series'' = None \<Longrightarrow>
   js_get (chartSpecToHighcharts spec) ''series'' =
     JArr (map (series_entry (chart_type spec)) (ChartSpec.series spec))"
  by (simp add: chartSpecToHighcharts_def js_get_def Let_def map_add_def)

lemma options_config:
  "config spec k = Some v \<Longrightarrow> js_get (chartSpecToHighcharts spec) k = v"
  by (simp add: chartSpecToHighcharts_def js_get_def Let_def map_add_def)

lemma series_entry_props:
  "js_prop (series_entry ct s) ''name'' = JStr (SeriesSpec.name s)"
  "js_prop (series_entry ct s) ''data'' = JArr (SeriesSpec.data s)"
  "js_prop (series_entry ct s) ''type'' = JStr (ChartType_value ct)"
  by (simp_all add: series_entry_def seriesConfig_def)

section \<open>The claims\<close>

text \<open>
  Claim C2, as amended. For every ChartSpec whose config map has no \<open>series\<close> key, the
  returned options hold one series entry per series, in order, each with the name and
  the data of its series unchanged and the chart type as its type, whatever the chart
  type; a \<open>series\<close> key of the config map is returned with the config's value instead.
  The table of a pie chart is made from the name/y records of the first series, each
  giving the row of \<open>String(name)\<close> and \<open>Number(y)\<close>, and the computation throws a
  TypeError when one of these conversions does. For every other chart type the table has
  one row per index below the length of the longest series, each built by running the
  series in order; a point is then read in one of three ways: an array of at least two
  elements as the pair x, y; a bare number as a y alone; any other point not at all.
\<close>

theorem series_data_shapes:
  "(config spec ''series'' = None \<longrightarrow>
      (\<exists>entries. js_get (chartSpecToHighcharts spec) ''series'' = JArr entries \<and>
         map (\<lambda>e. js_prop e ''name'') entries
           = map (\<lambda>s. JStr (SeriesSpec.name s)) (ChartSpec.series spec) \<and>
         map (\<lambda>e. js_prop e ''data'') entries
           = map (\<lambda>s. JArr (SeriesSpec.data s)) (ChartSpec.series spec) \<and>
         map (\<lambda>e. js_prop e ''type'') entries
           = map (\<lambda>s. JStr (ChartType_value (chart_type spec))) (ChartSpec.series spec))) \<and>
   (\<forall>v. config spec ''series'' = Some v \<longrightarrow> js_get (chartSpecToHighcharts spec) ''series'' = v) \<and>
   (chart_type spec = PIE \<longrightarrow>
      tableData to_string to_number spec =
        (case ChartSpec.series spec of
           [] \<Rightarrow> Inr (PieRows [])
         | s # rest \<Rightarrow>
             if pie_throws (SeriesSpec.data s) then Inl TypeError
             else Inr (PieRows (pie_rows_of to_string to_number (SeriesSpec.data s))))) \<and>
   (chart_type spec \<noteq> PIE \<longrightarrow>
      tableData to_string to_number spec
        = Inr (Rows (map (table_row spec) [0..<longest_series spec])) \<and>
      (\<forall>i. build_row spec i = Inr (table_row spec i)) \<and>
      (\<forall>x_title i s row.
         (xy_pair (array_at (SeriesSpec.data s) i) \<longrightarrow>
            row_step x_title i s row =
              Inr (row_assign
                     (row_assign row x_title (js_index (array_at (SeriesSpec.data s) i) 0))
                     (SeriesSpec.name s) (js_index (array_at (SeriesSpec.data s) i) 1))) \<and>
         (bare_number (array_at (SeriesSpec.data s) i) \<longrightarrow>
            row_step x_title i s row
              = Inr (row_assign row (SeriesSpec.name s) (array_at (SeriesSpec.data s) i))) \<and>
         (\<not> xy_pair (array_at (SeriesSpec.data s) i) \<and> \<not> bare_number (array_at (SeriesSpec.data s) i) \<longrightarrow>
            row_step x_title i s row = Inr row)))"
proof -
  have a: "config spec ''series'' = None \<Longrightarrow>
      (\<exists>entries. js_get (chartSpecToHighcharts spec) ''series'' = JArr entries \<and>
         map (\<lambda>e. js_prop e ''name'') entries
           = map (\<lambda>s. JStr (SeriesSpec.name s)) (ChartSpec.series spec) \<and>
         map (\<lambda>e. js_prop e ''data'') entries
           = map (\<lambda>s. JArr (SeriesSpec.data s)) (ChartSpec.series spec) \<and>
         map (\<lambda>e. js_prop e ''type'') entries
           = map (\<lambda>s. JStr (ChartType_value (chart_type spec))) (ChartSpec.series spec))"
    by (simp add: options_series series_entry_props comp_def del: js_prop.simps)
  have c: "\<not> (xy_pair p \<and> bare_number p)" for p
    by (auto simp: xy_pair_def bare_number_def split: jsval.splits)
  have d: "row_step x_title i s row =
             (if xy_pair (array_at (SeriesSpec.data s) i)
              then Inr (row_assign
                     (row_assign row x_title (js_index (array_at (SeriesSpec.data s) i) 0))
                     (SeriesSpec.name s) (js_index (array_at (SeriesSpec.data s) i) 1))
              else if bare_number (array_at (SeriesSpec.data s) i)
              then Inr (row_assign row (SeriesSpec.name s) (array_at (SeriesSpec.data s) i))
              else Inr row)" for x_title i s row
    by (simp add: row_step_ok cells_of_def)
  show ?thesis
    using a c by (auto simp: options_config tableData_pie tableData_rows build_row_ok d)
qed

theorem series_data_shapes_witness:
  "config number_series_chart ''series'' = None \<and>
   js_get (chartSpecToHighcharts number_series_chart) ''series''
     = JArr [JObj [(''name'', JStr ''S''), (''data'', JArr [JNum 5]), (''type'', JStr ''column''),
                   (''color'', JUndefined), (''yAxis'', JNum 0)]] \<and>
   chart_type number_series_chart \<noteq> PIE \<and>
   tableData sample_String sample_Number number_series_chart
     = Inr (Rows (map (table_row number_series_chart) [0..<1])) \<and>
   bare_number (array_at [JNum 5] 0) \<and>
   row_step ''Time'' 0 (ChartSpec.series number_series_chart ! 0) empty_row
     = Inr \<lparr>own = [''S'' \<mapsto> JNum 5], proto = ObjectPrototype\<rparr> \<and>
   chart_type example_pie = PIE \<and>
   tableData sample_String sample_Number example_pie = Inr (PieRows [\<lparr>pie_row.name = ''A'', value = 45\<rparr>])"
  using series_data_shapes [of number_series_chart sample_String sample_Number]
        series_data_shapes [of example_pie sample_String sample_Number]
  by (simp add: number_series_chart_def example_pie_def longest_series_def name_y_record_def
      pie_rows_of_def pie_throws_def sample_String_def sample_Number_def bare_number_def
      array_at_def row_assign_def empty_row_def chartSpecToHighcharts_def js_get_def
      series_entry_def seriesConfig_def Let_def map_add_def)

text \<open>
  Claim C2 as stated fails: the chart below is not a pie chart, its only data point is
  the bare number 5, which is no coordinate pair, and the table shows it as the cell of
  its series.
\<close>

theorem bare_number_point_counterexample:
  "chart_type number_series_chart \<noteq> PIE \<and>
   SeriesSpec.data (ChartSpec.series number_series_chart ! 0) = [JNum 5] \<and>
   \<not> xy_pair (JNum 5) \<and>
   tableData sample_String sample_Number number_series_chart
     = Inr (Rows [\<lparr>own = [''S'' \<mapsto> JNum 5], proto = ObjectPrototype\<rparr>])"
  by (simp add: number_series_chart_def xy_pair_def tableData_def rows_loop.simps build_row_def
      row_step_def array_at_def row_assign_def empty_row_def Let_def)

text \<open>
  Claim C3, as amended. For every ChartSpec whose config map has no \<open>xAxis\<close> key, the
  returned options have \<open>xAxis\<close> undefined when the chart is a pie chart and hold the
  one-element list of the built x-axis otherwise. For every ChartSpec whose config map
  has no \<open>yAxis\<close> key, the returned options have \<open>yAxis\<close> undefined when the chart is a
  pie chart, and otherwise hold a y-axis entry if and only if \<open>y_axis\<close> is non-null.
  A key \<open>xAxis\<close> or \<open>yAxis\<close> of the config map is returned with the config's value.
\<close>

theorem axes_present:
  "(config spec ''xAxis'' = None \<longrightarrow>
      (chart_type spec = PIE \<longrightarrow> js_get (chartSpecToHighcharts spec) ''xAxis'' = JUndefined) \<and>
      (chart_type spec \<noteq> PIE \<longrightarrow>
         js_get (chartSpecToHighcharts spec) ''xAxis'' = JArr [xAxis_var spec] \<and>
         xAxis_var spec \<noteq> JUndefined)) \<and>
   (config spec ''yAxis'' = None \<longrightarrow>
      (chart_type spec = PIE \<longrightarrow> js_get (chartSpecToHighcharts spec) ''yAxis'' = JUndefined) \<and>
      (chart_type spec \<noteq> PIE \<longrightarrow>
         (js_get (chartSpecToHighcharts spec) ''yAxis'' \<noteq> JUndefined \<longleftrightarrow> ChartSpec.y_axis spec \<noteq> None) \<and>
         (ChartSpec.y_axis spec \<noteq> None \<longrightarrow>
            js_get (chartSpecToHighcharts spec) ''yAxis'' = JArr [yAxis_var spec]))) \<and>
   (\<forall>v. config spec ''xAxis'' = Some v \<longrightarrow> js_get (chartSpecToHighcharts spec) ''xAxis'' = v) \<and>
   (\<forall>v. config spec ''yAxis'' = Some v \<longrightarrow> js_get (chartSpecToHighcharts spec) ''yAxis'' = v)"
proof -
  have "js_get (chartSpecToHighcharts spec) k = v" if "config spec k = Some v" for k v
    using that by (simp add: chartSpecToHighcharts_def js_get_def Let_def map_add_def)
  then show ?thesis
    by (auto simp: options_xAxis options_yAxis xAxis_var_def yAxis_var_def split: option.splits)
qed

theorem axes_present_witness:
  "config example_pie ''xAxis'' = None \<and> config example_pie ''yAxis'' = None \<and>
   chart_type example_pie = PIE \<and>
   js_get (chartSpecToHighcharts example_pie) ''xAxis'' = JUndefined \<and>
   js_get (chartSpecToHighcharts example_pie) ''yAxis'' = JUndefined \<and>
   config example_line ''xAxis'' = None \<and> config example_line ''yAxis'' = None \<and>
   chart_type example_line \<noteq> PIE \<and> ChartSpec.y_axis example_line \<noteq> None \<and>
   js_get (chartSpecToHighcharts example_line) ''xAxis'' = JArr [xAxis_var example_line] \<and>
   js_get (chartSpecToHighcharts example_line) ''yAxis'' = JArr [yAxis_var example_line] \<and>
   config number_series_chart ''yAxis'' = None \<and> chart_type number_series_chart \<noteq> PIE \<and>
   ChartSpec.y_axis number_series_chart = None \<and>
   js_get (chartSpecToHighcharts number_series_chart) ''yAxis'' = JUndefined"
  using axes_present [of example_pie] axes_present [of example_line]
        axes_present [of number_series_chart]
  by (simp add: example_pie_def example_line_def number_series_chart_def)

text \<open>
  Claim C3 as stated fails: a pie chart whose config map has an \<open>xAxis\<close> key is returned
  with that value as \<open>xAxis\<close>, not with \<open>undefined\<close>.
\<close>

theorem config_axis_counterexample:
  "chart_type pie_with_axis_config = PIE \<and>
   js_get (chartSpecToHighcharts pie_with_axis_config) ''xAxis'' = JObj [(''visible'', JBool True)] \<and>
   js_get (chartSpecToHighcharts pie_with_axis_config) ''xAxis'' \<noteq> JUndefined"
  by (simp add: pie_with_axis_config_def example_pie_def chartSpecToHighcharts_def js_get_def
      Let_def map_add_def)

text \<open>
  Claim C4, as amended. For every ChartSpec that is not a pie chart and whose config map
  has no \<open>xAxis\<close> key, the returned options hold as \<open>xAxis\<close> one axis with the title of
  the x-axis, the type \<open>datetime\<close> for \<open>datetime\<close>, \<open>logarithmic\<close> for \<open>log\<close>, \<open>category\<close>
  for \<open>category\<close> and \<open>linear\<close> for anything else, and \<open>min\<close> and \<open>max\<close> passed through
  unchanged, null becoming undefined. When moreover the y-axis is non-null and the config
  map has no \<open>yAxis\<close> key, the returned options hold as \<open>yAxis\<close> one axis whose \<open>min\<close> and
  \<open>max\<close> are passed through in the same way and whose title is the axis title followed
  by the unit in parentheses when the unit is a non-empty string, and the bare title
  when the unit is null or the empty string.
\<close>

theorem axis_mapping:
  assumes "chart_type spec \<noteq> PIE"
  shows "(config spec ''xAxis'' = None \<longrightarrow>
            js_get (chartSpecToHighcharts spec) ''xAxis'' =
              JArr [JObj [(''title'', JObj [(''text'', JStr (AxisSpec.title (x_axis spec)))]),
                          (''type'',
                           JStr (if AxisSpec.type (x_axis spec) = ''datetime'' then ''datetime''
                                 else if AxisSpec.type (x_axis spec) = ''log'' then ''logarithmic''
                                 else if AxisSpec.type (x_axis spec) = ''category'' then ''category''
                                 else ''linear'')),
                          (''min'', case min_val (x_axis spec) of None \<Rightarrow> JUndefined | Some m \<Rightarrow> JNum m),
                          (''max'', case max_val (x_axis spec) of None \<Rightarrow> JUndefined | Some m \<Rightarrow> JNum m)]]) \<and>
         (\<forall>ay. ChartSpec.y_axis spec = Some ay \<and> config spec ''yAxis'' = None \<longrightarrow>
            js_get (chartSpecToHighcharts spec) ''yAxis'' =
              JArr [JObj [(''title'',
                           JObj [(''text'',
                                  JStr (case unit ay of
                                          None \<Rightarrow> AxisSpec.title ay
                                        | Some u \<Rightarrow> if u = [] then AxisSpec.title ay
                                                    else AxisSpec.title ay @ '' ('' @ u @ '')''))]),
                          (''type'',
                           JStr (if AxisSpec.type ay = ''log'' then ''logarithmic''
                                 else if AxisSpec.type ay = ''category'' then ''category''
                                 else ''linear'')),
                          (''min'', case min_val ay of None \<Rightarrow> JUndefined | Some m \<Rightarrow> JNum m),
                          (''max'', case max_val ay of None \<Rightarrow> JUndefined | Some m \<Rightarrow> JNum m)]])"
  using assms
  by (auto simp: options_xAxis options_yAxis xAxis_var_def yAxis_var_def xAxisType_def
      yAxisType_def yAxisTitle_def nullish_num_def split: option.splits)

theorem axis_mapping_witness:
  "chart_type example_line \<noteq> PIE \<and> config example_line ''xAxis'' = None \<and>
   config example_line ''yAxis'' = None \<and>
   js_get (chartSpecToHighcharts example_line) ''xAxis'' =
     JArr [JObj [(''title'', JObj [(''text'', JStr ''Time'')]), (''type'', JStr ''datetime''),
                 (''min'', JUndefined), (''max'', JUndefined)]] \<and>
   js_get (chartSpecToHighcharts example_line) ''yAxis'' =
     JArr [JObj [(''title'', JObj [(''text'', JStr ''Value (kg)'')]), (''type'', JStr ''linear''),
                 (''min'', JNum 0), (''max'', JUndefined)]]"
  using axis_mapping [of example_line]
  by (simp add: example_line_def example_axis_def value_axis_def)

text \<open>
  Claim C4 as stated fails: the y-axis below has its unit set, to the empty string, and
  its title is rendered bare, not followed by the unit in parentheses.
\<close>

theorem empty_unit_counterexample:
  "chart_type empty_unit_chart \<noteq> PIE \<and>
   map_option unit (ChartSpec.y_axis empty_unit_chart) = Some (Some []) \<and>
   map_option AxisSpec.title (ChartSpec.y_axis empty_unit_chart) = Some ''Value'' \<and>
   js_prop (js_prop (yAxis_var empty_unit_chart) ''title'') ''text'' = JStr ''Value'' \<and>
   js_prop (js_prop (yAxis_var empty_unit_chart) ''title'') ''text'' \<noteq> JStr (''Value'' @ '' ('' @ [] @ '')'')"
  by (simp add: empty_unit_chart_def example_line_def value_axis_def yAxis_var_def yAxisTitle_def)

text \<open>
  Claim C6. For the empty object as input, \<open>infer\<close> fails with a ValidationError that
  carries a message, and \<open>validate\<close> returns every pattern flag false; this holds for
  every instance of the engine's parameters and for every hint.
\<close>

theorem empty_object_rejected:
  "infer env assemble (JObj []) h = Inl (ValidationError ''no usable data points'') \<and>
   validate env (JObj []) =
     \<lparr>is_grid = False, is_multi_series = False, is_time_series = False,
      is_category_value_arrays = False, is_categorical = False\<rparr>"
  by (simp add: infer_def validate_def detect_pattern_def extract_data_def grid_pattern_def
      multi_series_pattern_def time_series_pattern_def category_value_arrays_pattern_def
      categorical_pattern_def array_field_def object_fields_def extract_series_def
      List.map_filter_simps Let_def)

text \<open>The same at one instance of the parameters, next to an input that is accepted.\<close>

theorem empty_object_rejected_witness:
  "infer sample_env sample_assemble (JObj []) None = Inl (ValidationError ''no usable data points'') \<and>
   is_time_series (validate sample_env (JObj [])) = False \<and>
   is_time_series (validate sample_env points_input) = True \<and>
   infer sample_env sample_assemble points_input None = Inr sample_description"
  using empty_object_rejected [of sample_env sample_assemble None]
  by (simp add: infer_def validate_def detect_pattern_def extract_data_def grid_pattern_def
      multi_series_pattern_def time_series_pattern_def category_value_arrays_pattern_def
      categorical_pattern_def array_field_def object_fields_def extract_series_def
      List.map_filter_simps Let_def sample_env_def sample_assemble_def points_input_def
      temporal_field_def temporal_names_def to_lower_def has_numeric_value_def numeric_value_def
      extract_point_def first_present_def field_choice_def hinted_def normalise_x_def
      array_or_empty_def)

text \<open>
  Claim C7. Whenever the text parses, \<open>handleSubmit\<close> clears the error and submits one
  request, in which \<open>preferred_chart_type\<close> is present exactly when a chart type is
  selected, \<open>x_field\<close> and \<open>y_field\<close> are present exactly when the trimmed input is
  non-empty and then hold the trimmed input (never an empty string), \<open>units\<close> and
  \<open>formatting\<close> are absent, and \<open>hints\<close> is null exactly when none of the three is set.
\<close>

theorem handleSubmit_hints:
  assumes "JSON_parse (jsonText st) = Inr parsed"
  shows "\<exists>req. handleSubmit JSON_parse st = (st\<lparr>error := None\<rparr>, Some req) \<and>
           ChartRequest.data req = parsed \<and>
           request_hint preferred_chart_type req = preferredChartType st \<and>
           request_hint x_field req = (if trim (xField st) = [] then None else Some (trim (xField st))) \<and>
           request_hint y_field req = (if trim (yField st) = [] then None else Some (trim (yField st))) \<and>
           request_hint units req = None \<and> request_hint formatting req = None \<and>
           (hints req = None \<longleftrightarrow>
              preferredChartType st = None \<and> trim (xField st) = [] \<and> trim (yField st) = [])"
  using assms
  by (auto simp: handleSubmit_def Let_def Object_keys_def no_hints_def request_hint_def)

theorem handleSubmit_hints_witness:
  "sample_parse (jsonText typed_state) = Inr (JObj []) \<and>
   (\<exists>req. handleSubmit sample_parse typed_state = (typed_state\<lparr>error := None\<rparr>, Some req) \<and>
      request_hint x_field req = Some ''t'' \<and> request_hint y_field req = None \<and>
      request_hint preferred_chart_type req = None \<and> hints req \<noteq> None) \<and>
   sample_parse (jsonText blank_state) = Inr (JObj []) \<and>
   (\<exists>req. handleSubmit sample_parse blank_state = (blank_state\<lparr>error := None\<rparr>, Some req) \<and>
      hints req = None)"
  using handleSubmit_hints [of sample_parse typed_state "JObj []"]
        handleSubmit_hints [of sample_parse blank_state "JObj []"]
  by (auto simp: sample_parse_def typed_state_def blank_state_def trim_def js_whitespace_def)

text \<open>
  Claim C8. The config map is spread last: for every ChartSpec, a key that the config
  map holds is returned with the config's value, whatever the converter computed for it,
  also for the keys \<open>chart\<close>, \<open>series\<close>, \<open>xAxis\<close>, \<open>yAxis\<close> and \<open>title\<close>.
\<close>

theorem config_overrides:
  "config spec k = Some v \<Longrightarrow>
   chartSpecToHighcharts spec k = Some v \<and> js_get (chartSpecToHighcharts spec) k = v"
  by (simp add: chartSpecToHighcharts_def js_get_def Let_def map_add_def)

theorem config_overrides_witness:
  "config retitled_chart ''title'' = Some (JObj [(''text'', JStr ''Custom'')]) \<and>
   js_get (chartSpecToHighcharts retitled_chart) ''title'' = JObj [(''text'', JStr ''Custom'')] \<and>
   js_get (chartSpecToHighcharts example_line) ''title'' = JObj [(''text'', JStr ''Load'')] \<and>
   js_get (chartSpecToHighcharts retitled_chart) ''series'' = JArr []"
  using config_overrides [of retitled_chart "''title''" "JObj [(''text'', JStr ''Custom'')]"]
        config_overrides [of retitled_chart "''series''" "JArr []"]
  by (simp add: retitled_chart_def example_line_def chartSpecToHighcharts_def baseConfig_def
      js_get_def Let_def map_add_def)



text \<open>
  Claim C10, as amended. The table computation returns a table for every chart that is
  no pie chart, and for a pie chart unless a name/y record of the first series has a
  name or a y that cannot be converted (an object with an own property \<open>toString\<close>, or
  an array that holds one): then it throws a TypeError. For a chart that is no pie chart
  it gives one row per index below the length of the longest series; a series with no
  point at an index, or with a point that is neither an array of at least two elements
  nor a number, leaves the row as it is; and when neither the title of the x-axis nor
  the name of a series is \<open>__proto__\<close>, the keys of row \<open>i\<close> are exactly those written
  by the points that the series have at \<open>i\<close>. With no series the table is empty. For a
  pie chart the rows are those of the name/y records of the first series; every other
  point is dropped.
\<close>

theorem tableData_outcome:
  "((\<exists>t. tableData to_string to_number spec = Inr t) \<longleftrightarrow>
      \<not> (chart_type spec = PIE \<and>
         (case ChartSpec.series spec of [] \<Rightarrow> False | s # rest \<Rightarrow> pie_throws (SeriesSpec.data s)))) \<and>
   (chart_type spec \<noteq> PIE \<longrightarrow>
      (\<exists>rows. tableData to_string to_number spec = Inr (Rows rows) \<and>
         length rows = longest_series spec \<and>
         (plain_keys spec \<longrightarrow>
            (\<forall>i<length rows.
               proto (rows ! i) = ObjectPrototype \<and>
               dom (own (rows ! i)) =
                 (\<Union>s\<in>set (ChartSpec.series spec).
                    cell_keys (AxisSpec.title (x_axis spec)) (SeriesSpec.name s)
                      (array_at (SeriesSpec.data s) i)))))) \<and>
   (\<forall>x_title i s row.
      \<not> xy_pair (array_at (SeriesSpec.data s) i) \<and> \<not> bare_number (array_at (SeriesSpec.data s) i) \<longrightarrow>
      row_step x_title i s row = Inr row) \<and>
   (ChartSpec.series spec = [] \<longrightarrow>
      tableData to_string to_number spec
        = Inr (if chart_type spec = PIE then PieRows [] else Rows [])) \<and>
   (chart_type spec = PIE \<longrightarrow>
      tableData to_string to_number spec =
        (case ChartSpec.series spec of
           [] \<Rightarrow> Inr (PieRows [])
         | s # rest \<Rightarrow>
             if pie_throws (SeriesSpec.data s) then Inl TypeError
             else Inr (PieRows (pie_rows_of to_string to_number (SeriesSpec.data s)))))"
proof (cases "chart_type spec = PIE")
  case True
  then show ?thesis
    by (auto simp: tableData_pie row_step_ok cells_of_def split: list.splits)
next
  case False
  have "longest_series spec = 0" if "ChartSpec.series spec = []"
    using that by (simp add: longest_series_def)
  then show ?thesis
    using False by (auto simp: tableData_rows table_row_plain row_step_ok cells_of_def)
qed

theorem tableData_outcome_witness:
  "chart_type example_line \<noteq> PIE \<and> plain_keys example_line \<and>
   (\<exists>rows. tableData sample_String sample_Number example_line = Inr (Rows rows) \<and> length rows = 2 \<and>
      dom (own (rows ! 0)) = {''Time'', ''CPU'', ''Memory''} \<and>
      dom (own (rows ! 1)) = {''Time'', ''CPU''}) \<and>
   chart_type example_pie = PIE \<and>
   tableData sample_String sample_Number example_pie
     = Inr (PieRows [\<lparr>pie_row.name = ''A'', value = 45\<rparr>]) \<and>
   own (table_row proto_named_chart 0) = [''Time'' \<mapsto> JNum 1] \<and>
   proto (table_row proto_named_chart 0) = ObjectPrototype"
  using tableData_outcome [of sample_String sample_Number example_line]
        tableData_outcome [of sample_String sample_Number example_pie]
  by (auto simp: example_line_def example_pie_def example_axis_def longest_series_def cell_keys_def
      xy_pair_def bare_number_def array_at_def pie_rows_of_def pie_throws_def name_y_record_def
      less_Suc_eq sample_String_def sample_Number_def plain_keys_def proto_named_chart_def
      table_row_def cells_of_def row_assign_def empty_row_def reaches_proto_setter_def
      js_index_def)

text \<open>
  Claim C10 as stated fails: the pie chart below has one point, a name/y record whose
  name is an object with an own property \<open>toString\<close>; \<open>String(item.name)\<close> throws a
  TypeError on it, and so does the table computation.
\<close>

theorem unconvertible_name_counterexample:
  "chart_type unconvertible_pie = PIE \<and>
   SeriesSpec.data (ChartSpec.series unconvertible_pie ! 0)
     = [JObj [(''name'', JObj [(''toString'', JNum 1)]), (''y'', JNum 1)]] \<and>
   name_y_record (JObj [(''name'', JObj [(''toString'', JNum 1)]), (''y'', JNum 1)]) \<and>
   tableData sample_String sample_Number unconvertible_pie = Inl TypeError"
  by (simp add: unconvertible_pie_def name_y_record_def tableData_def pie_table_def pie_item_def
      js_String_def)

end
